theory Spec2Isabelle
  imports
    Main
    "HOL-Library.AList"
    "HOL-Library.Multiset"
    "HOL-Library.Char_ord"
    "HOL-Library.List_Lexorder"
    "HOL-Library.Product_Lexorder"
begin

section \<open>ExtractReviews.py: the data\<close>

text \<open>
  The exceptions that the script can let escape. \<open>RequestException\<close> stands for what
  \<^verbatim>\<open>requests.get\<close> raises when the transport fails, \<open>JSONDecodeError\<close> for what
  \<^verbatim>\<open>response.json()\<close> raises on a body that is not JSON.
\<close>

datatype error = TypeError | ValueError | KeyError | RequestException | JSONDecodeError

text \<open>
  The scalar JSON values that occur in a review: \<^verbatim>\<open>null\<close>, an integer, a string.
  (Floating-point scores and nested values are outside the model.)
\<close>

datatype jval = JNull | JInt int | JStr string

text \<open>
  A Python \<^verbatim>\<open>dict\<close> with string keys keeps its keys in insertion order: it is an
  association list. \<^verbatim>\<open>d.items()\<close> is the list itself, \<^verbatim>\<open>d[k]\<close> is
  \<open>map_of d k\<close>, and the assignment \<^verbatim>\<open>d[k] = v\<close> is \<open>AList.update k v d\<close>, which
  replaces the value of a key in place and appends a new key at the end.
\<close>

type_synonym 'v pydict = "(string \<times> 'v) list"

text \<open>\<^verbatim>\<open>dict(t)\<close> and \<^verbatim>\<open>{**d, **e}\<close>: the items are stored one after the other.\<close>

definition dict_update :: "'v pydict \<Rightarrow> (string \<times> 'v) list \<Rightarrow> 'v pydict" where
  "dict_update d items = foldl (\<lambda>acc (k, v). AList.update k v acc) d items"

definition dict_of :: "(string \<times> 'v) list \<Rightarrow> 'v pydict" where
  "dict_of items = dict_update [] items"

text \<open>One entry of a review's \<^verbatim>\<open>criterias\<close> list; the rating key may be absent.\<close>

record criteria_entry =
  criteria :: string
  rating :: "jval option"

text \<open>
  A raw review, as the service returns it, with the six keys that lines 63 to 68 read. (A
  review or a criteria entry that lacks a key which the script indexes raises
  \<^verbatim>\<open>KeyError\<close>; such responses are outside the model.)
\<close>

record raw_review =
  review_id :: jval
  review_date :: jval
  review_score :: jval
  review_scoreText :: jval
  review_title :: jval
  review_text :: jval
  review_criterias :: "criteria_entry list"

text \<open>
  The decoded body of a reviews response. \<open>Falsy\<close> is a body that Python takes for
  false (\<^verbatim>\<open>{}\<close>, \<^verbatim>\<open>null\<close>); \<open>Results rs tok\<close> is any other body, with
  \<^verbatim>\<open>data.get("results", {}).get("data", [])\<close> equal to \<open>rs\<close> and
  \<^verbatim>\<open>data.get("results", {}).get("nextPaginationToken")\<close> equal to \<open>tok\<close>.
\<close>

datatype reviews_json = Falsy | Results "raw_review list" "string option"

text \<open>
  What \<^verbatim>\<open>requests.get(url, params=params)\<close> gives: it raises, or it returns a response
  with a status code and a body, which \<^verbatim>\<open>response.json()\<close> decodes or fails to.
\<close>

record 'j response =
  status_code :: int
  json :: "error + 'j"

type_synonym 'j requests_get = "string \<Rightarrow> (string \<times> string) list \<Rightarrow> error + 'j response"

section \<open>The four fetch operations\<close>

definition GPLAY_BASE_URL :: string where
  "GPLAY_BASE_URL = ''https://gplayapi.cashlessconsumer.in''"

text \<open>\<^verbatim>\<open>response.json() if response.status_code == 200 else None\<close>\<close>

definition json_if_200 :: "error + 'j response \<Rightarrow> error + 'j option" where
  "json_if_200 r =
     (case r of
        Inl e \<Rightarrow> Inl e
      | Inr response \<Rightarrow>
          if status_code response = 200
          then (case json response of Inl e \<Rightarrow> Inl e | Inr j \<Rightarrow> Inr (Some j))
          else Inr None)"

text \<open>A token is true in a condition when it is present and not the empty string.\<close>

definition truthy :: "string option \<Rightarrow> bool" where
  "truthy tok = (case tok of None \<Rightarrow> False | Some s \<Rightarrow> s \<noteq> [])"

definition get_reviews :: "'j requests_get \<Rightarrow> string \<Rightarrow> string option \<Rightarrow> error + 'j option" where
  "get_reviews requests_get app_id next_pagination_token =
     (let url = GPLAY_BASE_URL @ ''/api/apps/'' @ app_id @ ''/reviews?num=100'';
          params = (if truthy next_pagination_token
                    then [(''nextPaginationToken'', the next_pagination_token)] else [])
      in json_if_200 (requests_get url params))"

definition get_appinfo :: "'j requests_get \<Rightarrow> string \<Rightarrow> error + 'j option" where
  "get_appinfo requests_get app_id =
     (let url = GPLAY_BASE_URL @ ''/api/apps/'' @ app_id
      in json_if_200 (requests_get url []))"

definition get_permissions :: "'j requests_get \<Rightarrow> string \<Rightarrow> error + 'j option" where
  "get_permissions requests_get app_id =
     (let url = GPLAY_BASE_URL @ ''/api/apps/'' @ app_id @ ''/permissions''
      in json_if_200 (requests_get url []))"

definition get_datasafety :: "'j requests_get \<Rightarrow> string \<Rightarrow> error + 'j option" where
  "get_datasafety requests_get app_id =
     (let url = GPLAY_BASE_URL @ ''/api/apps/'' @ app_id @ ''/datasafety''
      in json_if_200 (requests_get url []))"

section \<open>Flattening\<close>

text \<open>\<^verbatim>\<open>criteria.get("rating")\<close>: an absent rating reads as \<^verbatim>\<open>None\<close>.\<close>

definition get_rating :: "criteria_entry \<Rightarrow> jval" where
  "get_rating c = (case rating c of None \<Rightarrow> JNull | Some v \<Rightarrow> v)"

definition flatten_criterias :: "raw_review \<Rightarrow> jval pydict" where
  "flatten_criterias review =
     foldl (\<lambda>flattened_criterias c. AList.update (criteria c) (get_rating c) flattened_criterias)
       [] (review_criterias review)"

text \<open>The six fixed fields of lines 63 to 68, in the order of the dictionary display.\<close>

definition fixed_fields :: "raw_review \<Rightarrow> (string \<times> jval) list" where
  "fixed_fields review =
     [(''id'', review_id review),
      (''date'', review_date review),
      (''score'', review_score review),
      (''scoreText'', review_scoreText review),
      (''title'', review_title review),
      (''text'', review_text review)]"

text \<open>
  The dictionary display of lines 62 to 70: the six fixed keys, then the items of
  \<^verbatim>\<open>**flatten_criterias(review)\<close>, stored over them.
\<close>

definition flatten_review :: "raw_review \<Rightarrow> jval pydict" where
  "flatten_review review = dict_update (dict_of (fixed_fields review)) (flatten_criterias review)"

section \<open>Dates\<close>

text \<open>
  A date is its day number (the proleptic Gregorian ordinal of Python's \<^verbatim>\<open>date\<close>), so
  that the order of the integers is the chronological order and \<^verbatim>\<open>timedelta(days=2)\<close>
  is the number 2. The parser \<^verbatim>\<open>datetime.strptime(s, "%Y-%m-%d")\<close> belongs to the
  Python library: it is the parameter \<open>strptime\<close>, which gives \<open>None\<close> where the
  library raises \<^verbatim>\<open>ValueError\<close>. A value that is not a string makes it raise
  \<^verbatim>\<open>TypeError\<close>.
\<close>

type_synonym date = int

definition parse_date :: "(string \<Rightarrow> date option) \<Rightarrow> jval \<Rightarrow> error + date" where
  "parse_date strptime v =
     (case v of
        JStr s \<Rightarrow> (case strptime s of None \<Rightarrow> Inl ValueError | Some d \<Rightarrow> Inr d)
      | JNull \<Rightarrow> Inl TypeError
      | JInt n \<Rightarrow> Inl TypeError)"

section \<open>The paginated fetch\<close>

text \<open>
  Line 51, the comprehension
  \<^verbatim>\<open>[r for r in reviews if datetime.strptime(r["date"], "%Y-%m-%d").date() > upto_date]\<close>:
  the reviews are parsed from left to right and the first parse that fails raises.
\<close>

fun after_cutoff :: "(string \<Rightarrow> date option) \<Rightarrow> date \<Rightarrow> raw_review list \<Rightarrow> error + raw_review list" where
  "after_cutoff strptime upto_date [] = Inr []"
| "after_cutoff strptime upto_date (r # reviews) =
     (case parse_date strptime (review_date r) of
        Inl e \<Rightarrow> Inl e
      | Inr d \<Rightarrow>
          (case after_cutoff strptime upto_date reviews of
             Inl e \<Rightarrow> Inl e
           | Inr kept \<Rightarrow> Inr (if d > upto_date then r # kept else kept)))"

text \<open>
  The loop of lines 42 to 58, from the state (\<open>next_pagination_token\<close>, \<open>all_reviews\<close>).
  The service may hand out tokens for ever, so the loop is a partial function: \<open>None\<close>
  is a run that never leaves the loop.
\<close>

partial_function (option) fetch_loop ::
  "reviews_json requests_get \<Rightarrow> (string \<Rightarrow> date option) \<Rightarrow> string \<Rightarrow> date option \<Rightarrow>
   string option \<Rightarrow> raw_review list \<Rightarrow> (error + raw_review list) option"
where
  "fetch_loop requests_get strptime app_id upto_date next_pagination_token all_reviews =
     (case get_reviews requests_get app_id next_pagination_token of
        Inl e \<Rightarrow> Some (Inl e)
      | Inr None \<Rightarrow> Some (Inr all_reviews)
      | Inr (Some data) \<Rightarrow>
          (case data of
             Falsy \<Rightarrow> Some (Inr all_reviews)
           | Results reviews tok \<Rightarrow>
               (case upto_date of
                  None \<Rightarrow>
                    if \<not> truthy tok then Some (Inr (all_reviews @ reviews))
                    else fetch_loop requests_get strptime app_id upto_date tok (all_reviews @ reviews)
                | Some d \<Rightarrow>
                    (case after_cutoff strptime d reviews of
                       Inl e \<Rightarrow> Some (Inl e)
                     | Inr kept \<Rightarrow>
                         if length kept = 0 then Some (Inr all_reviews)
                         else if \<not> truthy tok then Some (Inr (all_reviews @ kept))
                         else fetch_loop requests_get strptime app_id upto_date tok (all_reviews @ kept)))))"

section \<open>Deduplication\<close>

text \<open>
  \<^verbatim>\<open>[dict(t) for t in {tuple(d.items()) for d in reviews}]\<close>. Python does not specify the
  order in which a set is iterated: \<open>set_iter ts\<close> is the order in which the set built by
  inserting the tuples \<open>ts\<close> one after the other is iterated. What is known of it is
  \<open>set_iter_ok\<close>: every tuple of the set comes once.
\<close>

type_synonym items = "(string \<times> jval) list"

text \<open>\<^verbatim>\<open>tuple(d.items())\<close>: the items of the dictionary, in its key order.\<close>

definition items_tuple :: "jval pydict \<Rightarrow> items" where
  "items_tuple d = d"

definition set_iter_ok :: "(items list \<Rightarrow> items list) \<Rightarrow> bool" where
  "set_iter_ok set_iter = (\<forall>ts. distinct (set_iter ts) \<and> set (set_iter ts) = set ts)"

definition remove_duplicates :: "(items list \<Rightarrow> items list) \<Rightarrow> jval pydict list \<Rightarrow> jval pydict list" where
  "remove_duplicates set_iter reviews = map dict_of (set_iter (map items_tuple reviews))"

definition extract_all_reviews ::
  "reviews_json requests_get \<Rightarrow> (string \<Rightarrow> date option) \<Rightarrow> (items list \<Rightarrow> items list) \<Rightarrow>
   string \<Rightarrow> date option \<Rightarrow> (error + jval pydict list) option"
where
  "extract_all_reviews requests_get strptime set_iter app_id upto_date =
     (case fetch_loop requests_get strptime app_id upto_date None [] of
        None \<Rightarrow> None
      | Some (Inl e) \<Rightarrow> Some (Inl e)
      | Some (Inr all_reviews) \<Rightarrow>
          (let flattened_reviews = map flatten_review all_reviews
           in Some (Inr (map dict_of (set_iter (map items_tuple flattened_reviews))))))"

section \<open>Merge, sort and persist\<close>

text \<open>
  The key of line 98, \<^verbatim>\<open>(datetime.strptime(x["date"], "%Y-%m-%d"), x["id"])\<close>: the
  parsed date and the id as it is, of whatever kind. A missing key raises
  \<^verbatim>\<open>KeyError\<close>.
\<close>

definition sort_key_of :: "(string \<Rightarrow> date option) \<Rightarrow> jval pydict \<Rightarrow> error + (date \<times> jval)" where
  "sort_key_of strptime x =
     (case map_of x ''date'' of
        None \<Rightarrow> Inl KeyError
      | Some dv \<Rightarrow>
          (case parse_date strptime dv of
             Inl e \<Rightarrow> Inl e
           | Inr d \<Rightarrow>
               (case map_of x ''id'' of
                  None \<Rightarrow> Inl KeyError
                | Some i \<Rightarrow> Inr (d, i))))"

text \<open>The keys are computed for the whole list, from left to right, before any comparison.\<close>

fun sort_keys :: "(string \<Rightarrow> date option) \<Rightarrow> jval pydict list \<Rightarrow> error + (date \<times> jval) list" where
  "sort_keys strptime [] = Inr []"
| "sort_keys strptime (x # xs) =
     (case sort_key_of strptime x of
        Inl e \<Rightarrow> Inl e
      | Inr k \<Rightarrow> (case sort_keys strptime xs of Inl e \<Rightarrow> Inl e | Inr ks \<Rightarrow> Inr (k # ks)))"

text \<open>
  How Python compares two keys. The dates decide when they differ. Among equal dates the
  ids decide: two integers compare as numbers, two strings character by character (a
  proper prefix first), two \<^verbatim>\<open>None\<close> are equal, and ids of two different kinds
  cannot be compared (the comparison raises \<^verbatim>\<open>TypeError\<close>). \<open>id_rank\<close> embeds the
  ids into a linear order that agrees with Python on ids of one kind.
\<close>

definition id_rank :: "jval \<Rightarrow> nat \<times> int \<times> string" where
  "id_rank v = (case v of JNull \<Rightarrow> (0, 0, []) | JInt n \<Rightarrow> (1, n, []) | JStr s \<Rightarrow> (2, 0, s))"

definition rank_key :: "date \<times> jval \<Rightarrow> date \<times> nat \<times> int \<times> string" where
  "rank_key k = (fst k, id_rank (snd k))"

definition comparable :: "date \<times> jval \<Rightarrow> date \<times> jval \<Rightarrow> bool" where
  "comparable a b = (if fst a = fst b then fst (id_rank (snd a)) = fst (id_rank (snd b)) else True)"

definition comparable_keys :: "(date \<times> jval) list \<Rightarrow> bool" where
  "comparable_keys keys = list_all (\<lambda>a. list_all (comparable a) keys) keys"

text \<open>
  \<^verbatim>\<open>sorted(xs, key=..., reverse=True)\<close> is stable: Python reverses the list, sorts it
  in ascending order without moving equal keys past each other, and reverses the result.
\<close>

definition sorted_reverse :: "'k::linorder list \<Rightarrow> 'a list \<Rightarrow> 'a list" where
  "sorted_reverse keys xs = map snd (rev (sort_key fst (rev (zip keys xs))))"

text \<open>
  Line 98. When every two keys can be compared, the result is the stable descending sort.
  When two keys cannot, Python raises \<^verbatim>\<open>TypeError\<close> if its sort happens to compare
  them and returns a list otherwise; which comparisons the sort makes is not modelled, and
  the outcome of that case is the parameter \<open>sort_incomparable\<close>.
\<close>

definition sort_reviews ::
  "(string \<Rightarrow> date option) \<Rightarrow>
   ((date \<times> jval) list \<Rightarrow> jval pydict list \<Rightarrow> error + jval pydict list) \<Rightarrow>
   jval pydict list \<Rightarrow> error + jval pydict list"
where
  "sort_reviews strptime sort_incomparable all_reviews =
     (case sort_keys strptime all_reviews of
        Inl e \<Rightarrow> Inl e
      | Inr keys \<Rightarrow>
          if comparable_keys keys then Inr (sorted_reverse (map rank_key keys) all_reviews)
          else sort_incomparable keys all_reviews)"

text \<open>
  The files of \<^verbatim>\<open>../raw-data/reviews/\<close>, by name. A reviews file holds a JSON array of
  flat reviews and a criterias file a JSON object of counts; the value stored is the
  value that \<^verbatim>\<open>json.dump\<close> writes, of which the bytes of the file are a function.
\<close>

record store =
  reviews_files :: "string \<rightharpoonup> jval pydict list"
  criterias_files :: "string \<rightharpoonup> int pydict"

text \<open>The operator \<^verbatim>\<open>+\<close> of Python on strings and integers.\<close>

datatype pyval = PStr string | PInt int

fun py_add :: "pyval \<Rightarrow> pyval \<Rightarrow> error + pyval" where
  "py_add (PStr a) (PStr b) = Inr (PStr (a @ b))"
| "py_add (PInt a) (PInt b) = Inr (PInt (a + b))"
| "py_add (PStr a) (PInt b) = Inl TypeError"
| "py_add (PInt a) (PStr b) = Inl TypeError"

definition len :: "'a list \<Rightarrow> pyval" where
  "len xs = PInt (int (length xs))"

text \<open>\<^verbatim>\<open>'../raw-data/reviews/' + f"Reviews_{app_id}.json"\<close>\<close>

definition reviews_path :: "string \<Rightarrow> string" where
  "reviews_path app_id = ''../raw-data/reviews/'' @ ''Reviews_'' @ app_id @ ''.json''"

text \<open>
  Lines 88 to 92 (and 177 to 181): the archive is read when the file exists, and is the
  empty list otherwise.
\<close>

definition load_reviews :: "store \<Rightarrow> string \<Rightarrow> jval pydict list" where
  "load_reviews fs review_filename =
     (case reviews_files fs review_filename of Some rs \<Rightarrow> rs | None \<Rightarrow> [])"

text \<open>How a call ends: it returns, or an exception leaves it.\<close>

datatype outcome = Returned | Raised error

text \<open>Lines 97 to 100: merge with the archive, sort, and overwrite the file.\<close>

definition merge_and_persist ::
  "(string \<Rightarrow> date option) \<Rightarrow> (items list \<Rightarrow> items list) \<Rightarrow>
   ((date \<times> jval) list \<Rightarrow> jval pydict list \<Rightarrow> error + jval pydict list) \<Rightarrow> string \<Rightarrow>
   jval pydict list \<Rightarrow> jval pydict list \<Rightarrow> store \<Rightarrow> outcome \<times> store"
where
  "merge_and_persist strptime set_iter sort_incomparable review_filename existing_reviews reviews fs =
     (let all_reviews = remove_duplicates set_iter (existing_reviews @ reviews)
      in case sort_reviews strptime sort_incomparable all_reviews of
           Inl e \<Rightarrow> (Raised e, fs)
         | Inr all_reviews \<Rightarrow>
             (Returned, fs\<lparr>reviews_files := (reviews_files fs)(review_filename \<mapsto> all_reviews)\<rparr>))"

text \<open>
  \<open>save_app_reviews\<close>, lines 85 to 100. \<open>today\<close> is the date that
  \<^verbatim>\<open>datetime.today()\<close> reads from the clock.
\<close>

definition save_app_reviews ::
  "reviews_json requests_get \<Rightarrow> (string \<Rightarrow> date option) \<Rightarrow> (items list \<Rightarrow> items list) \<Rightarrow>
   ((date \<times> jval) list \<Rightarrow> jval pydict list \<Rightarrow> error + jval pydict list) \<Rightarrow>
   date \<Rightarrow> string \<Rightarrow> store \<Rightarrow> (outcome \<times> store) option"
where
  "save_app_reviews requests_get strptime set_iter sort_incomparable today app_id fs =
     (let review_filename = reviews_path app_id;
          existing_reviews = load_reviews fs review_filename;
          upto_date = today - 2
      in case (if length existing_reviews > 0
               then extract_all_reviews requests_get strptime set_iter app_id (Some upto_date)
               else extract_all_reviews requests_get strptime set_iter app_id None) of
           None \<Rightarrow> None
         | Some (Inl e) \<Rightarrow> Some (Raised e, fs)
         | Some (Inr reviews) \<Rightarrow>
             (case py_add (PStr ''Count of all reviews '') (len reviews) of
                Inl e \<Rightarrow> Some (Raised e, fs)
              | Inr message \<Rightarrow>
                  Some (merge_and_persist strptime set_iter sort_incomparable review_filename
                          existing_reviews reviews fs)))"

section \<open>Criteria counts\<close>

definition startswith :: "string \<Rightarrow> string \<Rightarrow> bool" where
  "startswith s p = (take (length p) s = p)"

text \<open>\<^verbatim>\<open>criteria_counts[key] = criteria_counts.get(key, 0) + 1\<close>\<close>

definition count_key :: "int pydict \<Rightarrow> string \<Rightarrow> int pydict" where
  "count_key criteria_counts key =
     (if startswith key ''vaf''
      then AList.update key ((case map_of criteria_counts key of None \<Rightarrow> 0 | Some n \<Rightarrow> n) + 1)
             criteria_counts
      else criteria_counts)"

definition count_criterias :: "jval pydict list \<Rightarrow> int pydict" where
  "count_criterias existing_reviews =
     foldl (\<lambda>criteria_counts single_review. foldl count_key criteria_counts (map fst single_review))
       [] existing_reviews"

text \<open>\<^verbatim>\<open>'../raw-data/reviews/' + f"Criterias_{app_id}.json"\<close>\<close>

definition criterias_path :: "string \<Rightarrow> string" where
  "criterias_path app_id = ''../raw-data/reviews/'' @ ''Criterias_'' @ app_id @ ''.json''"

definition save_app_review_criterias :: "string \<Rightarrow> store \<Rightarrow> store" where
  "save_app_review_criterias app_id fs =
     (let review_filename = reviews_path app_id;
          criterias_filename = criterias_path app_id;
          existing_reviews = load_reviews fs review_filename;
          criteria_counts = count_criterias existing_reviews
      in fs\<lparr>criterias_files := (criterias_files fs)(criterias_filename \<mapsto> criteria_counts)\<rparr>)"

section \<open>What the service hands out\<close>

text \<open>The one request that \<open>get_reviews\<close> makes (lines 12 to 14).\<close>

definition reviews_request ::
  "'j requests_get \<Rightarrow> string \<Rightarrow> string option \<Rightarrow> error + 'j response"
where
  "reviews_request requests_get app_id next_pagination_token =
     requests_get (GPLAY_BASE_URL @ ''/api/apps/'' @ app_id @ ''/reviews?num=100'')
       (if truthy next_pagination_token
        then [(''nextPaginationToken'', the next_pagination_token)] else [])"

text \<open>A review is dated after the cutoff when its date parses to a later day.\<close>

definition dated_after :: "(string \<Rightarrow> date option) \<Rightarrow> date \<Rightarrow> raw_review \<Rightarrow> bool" where
  "dated_after strptime upto_date r =
     (case parse_date strptime (review_date r) of Inl e \<Rightarrow> False | Inr d \<Rightarrow> d > upto_date)"

text \<open>
  \<open>page_sequence requests_get app_id tok pages\<close>: asked with the token \<open>tok\<close>, the service
  answers with the first page, whose token leads to the second, and so on, up to the
  last page, which carries no token. A page is its reviews and its token.
\<close>

fun page_sequence ::
  "reviews_json requests_get \<Rightarrow> string \<Rightarrow> string option \<Rightarrow>
   (raw_review list \<times> string option) list \<Rightarrow> bool"
where
  "page_sequence requests_get app_id tok [] = False"
| "page_sequence requests_get app_id tok [(reviews, next)] =
     (get_reviews requests_get app_id tok = Inr (Some (Results reviews next)) \<and> \<not> truthy next)"
| "page_sequence requests_get app_id tok ((reviews, next) # p # ps) =
     (get_reviews requests_get app_id tok = Inr (Some (Results reviews next)) \<and> truthy next
      \<and> page_sequence requests_get app_id next (p # ps))"

text \<open>
  \<open>cut_sequence requests_get strptime app_id upto_date tok pages\<close>: the same walk, where
  every page but the last keeps a review after the cutoff and carries a token, and the
  last page keeps none (whatever its token).
\<close>

fun cut_sequence ::
  "reviews_json requests_get \<Rightarrow> (string \<Rightarrow> date option) \<Rightarrow> string \<Rightarrow> date \<Rightarrow> string option \<Rightarrow>
   (raw_review list \<times> string option) list \<Rightarrow> bool"
where
  "cut_sequence requests_get strptime app_id upto_date tok [] = False"
| "cut_sequence requests_get strptime app_id upto_date tok [(reviews, next)] =
     (get_reviews requests_get app_id tok = Inr (Some (Results reviews next))
      \<and> after_cutoff strptime upto_date reviews = Inr [])"
| "cut_sequence requests_get strptime app_id upto_date tok ((reviews, next) # p # ps) =
     (get_reviews requests_get app_id tok = Inr (Some (Results reviews next))
      \<and> (case after_cutoff strptime upto_date reviews of Inl e \<Rightarrow> False | Inr kept \<Rightarrow> kept \<noteq> [])
      \<and> truthy next
      \<and> cut_sequence requests_get strptime app_id upto_date next (p # ps))"

section \<open>Example inputs\<close>

text \<open>
  A parser that knows five days of January 2024 (with their day numbers) and rejects every
  other string; a set that is iterated in the order in which its elements
  were last inserted; a review with
  no criteria; and a few services and stores.
\<close>

definition example_strptime :: "string \<Rightarrow> date option" where
  "example_strptime s =
     map_of [(''2024-01-01'', 738886), (''2024-01-02'', 738887), (''2024-01-03'', 738888),
             (''2024-01-04'', 738889), (''2024-01-05'', 738890)] s"

definition example_set_iter :: "items list \<Rightarrow> items list" where
  "example_set_iter ts = remdups ts"

definition example_review :: "string \<Rightarrow> string \<Rightarrow> raw_review" where
  "example_review i d =
     \<lparr>review_id = JStr i, review_date = JStr d, review_score = JInt 5,
      review_scoreText = JStr ''5'', review_title = JNull, review_text = JStr ''fine'',
      review_criterias = []\<rparr>"

definition ok_200 :: "reviews_json \<Rightarrow> error + reviews_json response" where
  "ok_200 body = Inr \<lparr>status_code = 200, json = Inr body\<rparr>"

definition one_page_service :: "reviews_json requests_get" where
  "one_page_service url params = ok_200 (Results [example_review ''1'' ''2024-01-03''] None)"

definition bad_date_service :: "reviews_json requests_get" where
  "bad_date_service url params = ok_200 (Results [example_review ''2'' ''yesterday''] None)"

definition always_503 :: "reviews_json requests_get" where
  "always_503 url params = Inr \<lparr>status_code = 503, json = Inl JSONDecodeError\<rparr>"

definition transport_down :: "reviews_json requests_get" where
  "transport_down url params = Inl RequestException"

definition empty_store :: store where
  "empty_store = \<lparr>reviews_files = Map.empty, criterias_files = Map.empty\<rparr>"

definition archive_store :: "jval pydict list \<Rightarrow> store" where
  "archive_store rs =
     \<lparr>reviews_files = [reviews_path ''com.example'' \<mapsto> rs], criterias_files = Map.empty\<rparr>"

text \<open>
  Three pages \<^verbatim>\<open>[tokenA, tokenB, none]\<close>. The second page holds old reviews only; the
  third holds a recent one, out of order.
\<close>

definition page_one :: "raw_review list" where
  "page_one = [example_review ''5'' ''2024-01-05'', example_review ''4'' ''2024-01-04'']"

definition page_two :: "raw_review list" where
  "page_two = [example_review ''3'' ''2024-01-02'', example_review ''2'' ''2024-01-01'']"

definition page_three :: "raw_review list" where
  "page_three = [example_review ''1'' ''2024-01-04'']"

definition three_page_service :: "reviews_json requests_get" where
  "three_page_service url params =
     (if params = [] then ok_200 (Results page_one (Some ''tokenA''))
      else if params = [(''nextPaginationToken'', ''tokenA'')]
      then ok_200 (Results page_two (Some ''tokenB''))
      else ok_200 (Results page_three None))"

text \<open>A page with a review of the day before the cutoff, of the cutoff day, and of the day after.\<close>

definition boundary_page :: "raw_review list" where
  "boundary_page = [example_review ''a'' ''2024-01-02'', example_review ''b'' ''2024-01-03'',
                    example_review ''c'' ''2024-01-04'']"


text \<open>Two records with the same keys and values, in a different key order.\<close>

definition record_a :: "jval pydict" where
  "record_a = [(''id'', JStr ''1''), (''date'', JStr ''2024-01-02'')]"

definition record_b :: "jval pydict" where
  "record_b = [(''date'', JStr ''2024-01-02''), (''id'', JStr ''1'')]"

text \<open>A fetched batch, and the archive that it gives when merged with the review 9.\<close>

definition unsorted_batch :: "jval pydict list" where
  "unsorted_batch = [flatten_review (example_review ''10'' ''2024-01-02''),
                     flatten_review (example_review ''9'' ''2024-01-02''),
                     flatten_review (example_review ''2'' ''2024-01-03'')]"

definition sorted_archive :: "jval pydict list" where
  "sorted_archive = [flatten_review (example_review ''2'' ''2024-01-03''),
                     flatten_review (example_review ''9'' ''2024-01-02''),
                     flatten_review (example_review ''10'' ''2024-01-02'')]"

text \<open>
  An archive of three records: two hold the key \<^verbatim>\<open>vaf_clarity\<close>, one holds
  \<^verbatim>\<open>vaf_speed\<close>.
\<close>

definition criteria_archive :: "jval pydict list" where
  "criteria_archive =
     [[(''id'', JStr ''1''), (''vaf_clarity'', JInt 4)],
      [(''id'', JStr ''2''), (''vaf_clarity'', JNull)],
      [(''id'', JStr ''3''), (''vaf_speed'', JInt 2)]]"

text \<open>A sort that raises when it meets two keys that cannot be compared.\<close>

definition raise_incomparable ::
  "(date \<times> jval) list \<Rightarrow> jval pydict list \<Rightarrow> error + jval pydict list"
where
  "raise_incomparable keys xs = Inl TypeError"

text \<open>A service that hands out a first page with a token and whose transport then fails.\<close>

definition second_request_fails :: "reviews_json requests_get" where
  "second_request_fails url params =
     (if params = [] then ok_200 (Results page_one (Some ''tokenA''))
      else Inl RequestException)"

text \<open>A service that answers 200 with a body that is not JSON.\<close>

definition undecodable_200 :: "reviews_json requests_get" where
  "undecodable_200 url params = Inr \<lparr>status_code = 200, json = Inl JSONDecodeError\<rparr>"

text \<open>A persisted record whose id is an integer.\<close>

definition int_review :: "int \<Rightarrow> string \<Rightarrow> jval pydict" where
  "int_review i d = [(''id'', JInt i), (''date'', JStr d)]"

section \<open>Properties\<close>

lemmas eval_defs = save_app_reviews_def extract_all_reviews_def get_reviews_def json_if_200_def
  truthy_def ok_200_def len_def load_reviews_def Let_def

subsection \<open>The fetch operations\<close>

lemma json_if_200_raise: "json_if_200 (Inl e) = Inl e"
  by (simp add: json_if_200_def)

lemma json_if_200_not_200: "status_code r \<noteq> 200 \<Longrightarrow> json_if_200 (Inr r) = Inr None"
  by (simp add: json_if_200_def)

text \<open>
  C7, as the code has it: each of the four fetch operations returns \<^verbatim>\<open>None\<close> when the
  response is not a 200; when \<^verbatim>\<open>requests.get\<close> raises (a transport error), no
  operation catches the exception, and it reaches the caller.
\<close>

theorem fetch_operations_none_or_raise:
  "((\<forall>url params. \<exists>r. requests_get url params = Inr r \<and> status_code r \<noteq> 200) \<longrightarrow>
      get_reviews requests_get app_id tok = Inr None
      \<and> get_appinfo requests_get app_id = Inr None
      \<and> get_permissions requests_get app_id = Inr None
      \<and> get_datasafety requests_get app_id = Inr None)
   \<and> ((\<forall>url params. requests_get url params = Inl e) \<longrightarrow>
      get_reviews requests_get app_id tok = Inl e
      \<and> get_appinfo requests_get app_id = Inl e
      \<and> get_permissions requests_get app_id = Inl e
      \<and> get_datasafety requests_get app_id = Inl e)"
proof (intro conjI impI)
  assume h: "\<forall>url params. \<exists>r. requests_get url params = Inr r \<and> status_code r \<noteq> 200"
  have n: "json_if_200 (requests_get url params) = Inr None" for url params
    using h json_if_200_not_200 by metis
  show "get_reviews requests_get app_id tok = Inr None" by (simp add: get_reviews_def n)
  show "get_appinfo requests_get app_id = Inr None" by (simp add: get_appinfo_def n)
  show "get_permissions requests_get app_id = Inr None" by (simp add: get_permissions_def n)
  show "get_datasafety requests_get app_id = Inr None" by (simp add: get_datasafety_def n)
next
  assume h: "\<forall>url params. requests_get url params = Inl e"
  show "get_reviews requests_get app_id tok = Inl e"
    by (simp add: get_reviews_def h json_if_200_raise)
  show "get_appinfo requests_get app_id = Inl e"
    by (simp add: get_appinfo_def h json_if_200_raise)
  show "get_permissions requests_get app_id = Inl e"
    by (simp add: get_permissions_def h json_if_200_raise)
  show "get_datasafety requests_get app_id = Inl e"
    by (simp add: get_datasafety_def h json_if_200_raise)
qed

text \<open>The theorem at a service that answers 503 and at a transport that is down.\<close>

theorem fetch_operations_none_or_raise_witness:
  "(get_reviews always_503 ''com.example'' (Some ''tokenA'') = Inr None
    \<and> get_appinfo always_503 ''com.example'' = Inr None
    \<and> get_permissions always_503 ''com.example'' = Inr None
    \<and> get_datasafety always_503 ''com.example'' = Inr None)
   \<and> (get_reviews transport_down ''com.example'' (Some ''tokenA'') = Inl RequestException
    \<and> get_appinfo transport_down ''com.example'' = Inl RequestException
    \<and> get_permissions transport_down ''com.example'' = Inl RequestException
    \<and> get_datasafety transport_down ''com.example'' = Inl RequestException)"
  using fetch_operations_none_or_raise
          [of always_503 "''com.example''" "Some ''tokenA''" RequestException]
        fetch_operations_none_or_raise
          [of transport_down "''com.example''" "Some ''tokenA''" RequestException]
  by (simp add: always_503_def transport_down_def)

text \<open>
  C7 as stated fails: with the transport down, \<open>get_reviews\<close> raises instead of
  returning \<^verbatim>\<open>None\<close>.
\<close>

theorem get_reviews_transport_error_counterexample:
  "get_reviews transport_down ''com.example'' None = Inl RequestException
   \<and> get_reviews transport_down ''com.example'' None \<noteq> Inr None"
  by (simp add: get_reviews_def transport_down_def json_if_200_def truthy_def)

subsection \<open>The review sync never reaches its write\<close>

lemma flat_example:
  "flatten_review (example_review i d) =
     [(''id'', JStr i), (''date'', JStr d), (''score'', JInt 5), (''scoreText'', JStr ''5''),
      (''title'', JNull), (''text'', JStr ''fine'')]"
  by (simp add: flatten_review_def fixed_fields_def flatten_criterias_def dict_update_def
      dict_of_def example_review_def)

text \<open>
  C1, as the code has it: whenever loading the archive and fetching end with a list of
  reviews, \<open>save_app_reviews\<close> raises \<^verbatim>\<open>TypeError\<close> at line 96 and leaves the store
  as it was; when the fetch itself raises, that exception leaves \<open>save_app_reviews\<close>,
  with the store as it was; when the fetch never ends, neither does the call; and however
  a call ends, it has not returned normally and has written nothing.
\<close>

theorem save_app_reviews_never_persists:
  "(extract_all_reviews requests_get strptime set_iter app_id
       (if length (load_reviews fs (reviews_path app_id)) > 0 then Some (today - 2) else None)
     = Some (Inr reviews)
     \<longrightarrow> save_app_reviews requests_get strptime set_iter sort_incomparable today app_id fs
           = Some (Raised TypeError, fs))
   \<and> (extract_all_reviews requests_get strptime set_iter app_id
       (if length (load_reviews fs (reviews_path app_id)) > 0 then Some (today - 2) else None)
     = Some (Inl e)
     \<longrightarrow> save_app_reviews requests_get strptime set_iter sort_incomparable today app_id fs
           = Some (Raised e, fs))
   \<and> (extract_all_reviews requests_get strptime set_iter app_id
       (if length (load_reviews fs (reviews_path app_id)) > 0 then Some (today - 2) else None)
     = None
     \<longrightarrow> save_app_reviews requests_get strptime set_iter sort_incomparable today app_id fs = None)
   \<and> (save_app_reviews requests_get strptime set_iter sort_incomparable today app_id fs
       = Some (out, fs')
     \<longrightarrow> fs' = fs \<and> out \<noteq> Returned)"
  by (auto simp add: save_app_reviews_def Let_def len_def
      split: option.splits sum.splits if_splits)

text \<open>
  The theorem at a first sync of one page with one review, which ends with the
  \<^verbatim>\<open>TypeError\<close> of line 96, and at a first sync with the transport down, which ends
  with the exception of the transport.
\<close>

theorem save_app_reviews_never_persists_witness:
  "save_app_reviews one_page_service example_strptime example_set_iter raise_incomparable
     738890 ''com.example'' empty_store
   = Some (Raised TypeError, empty_store)
   \<and> save_app_reviews transport_down example_strptime example_set_iter raise_incomparable
     738890 ''com.example'' empty_store
   = Some (Raised RequestException, empty_store)"
proof -
  have "extract_all_reviews one_page_service example_strptime example_set_iter ''com.example''
          (if length (load_reviews empty_store (reviews_path ''com.example'')) > 0
           then Some (738890 - 2) else None)
        = Some (Inr [flatten_review (example_review ''1'' ''2024-01-03'')])"
    by (simp add: extract_all_reviews_def get_reviews_def json_if_200_def truthy_def
        ok_200_def load_reviews_def Let_def fetch_loop.simps one_page_service_def
        empty_store_def example_set_iter_def items_tuple_def dict_of_def dict_update_def
        flatten_review_def fixed_fields_def flatten_criterias_def example_review_def)
  with save_app_reviews_never_persists
  have a: "save_app_reviews one_page_service example_strptime example_set_iter raise_incomparable
     738890 ''com.example'' empty_store = Some (Raised TypeError, empty_store)"
    by blast
  have "extract_all_reviews transport_down example_strptime example_set_iter ''com.example''
          (if length (load_reviews empty_store (reviews_path ''com.example'')) > 0
           then Some (738890 - 2) else None)
        = Some (Inl RequestException)"
    by (simp add: extract_all_reviews_def get_reviews_def json_if_200_def truthy_def
        load_reviews_def Let_def fetch_loop.simps transport_down_def empty_store_def)
  with save_app_reviews_never_persists
  have b: "save_app_reviews transport_down example_strptime example_set_iter raise_incomparable
     738890 ''com.example'' empty_store = Some (Raised RequestException, empty_store)"
    by blast
  from a b show ?thesis by simp
qed

text \<open>
  C1 as stated fails: with an archive on disk and a fetched review whose date does not
  parse, the exception is the \<^verbatim>\<open>ValueError\<close> of line 51, not the
  \<^verbatim>\<open>TypeError\<close> of line 96.
\<close>

theorem save_app_reviews_ValueError_counterexample:
  "save_app_reviews bad_date_service example_strptime example_set_iter raise_incomparable
     738890 ''com.example''
     (archive_store [flatten_review (example_review ''1'' ''2024-01-03'')])
   = Some (Raised ValueError, archive_store [flatten_review (example_review ''1'' ''2024-01-03'')])"
  by (simp add: eval_defs fetch_loop.simps bad_date_service_def archive_store_def
      example_review_def parse_date_def example_strptime_def)

text \<open>
  C3: the code at a first sync of one page with one review. The run raises at line 96 and
  no archive file exists after it; a second run starts from the same store and ends the
  same way, so no archive is persisted by either run.
\<close>

theorem sync_twice_persists_nothing:
  "save_app_reviews one_page_service example_strptime example_set_iter raise_incomparable
     738890 ''com.example'' empty_store
     = Some (Raised TypeError, empty_store)
   \<and> reviews_files empty_store (reviews_path ''com.example'') = None"
  by (simp add: eval_defs fetch_loop.simps one_page_service_def empty_store_def)

text \<open>
  C9: the code at an archive whose only record has the date \<^verbatim>\<open>not-a-date\<close>, with
  the service answering 503. The sort step alone would raise the \<^verbatim>\<open>ValueError\<close>
  of the parser, but the run raises \<^verbatim>\<open>TypeError\<close> at line 96 and never sorts.
\<close>

theorem malformed_archive_date_raises_TypeError:
  "save_app_reviews always_503 example_strptime example_set_iter raise_incomparable
     738890 ''com.example''
     (archive_store [flatten_review (example_review ''1'' ''not-a-date'')])
     = Some (Raised TypeError, archive_store [flatten_review (example_review ''1'' ''not-a-date'')])
   \<and> sort_reviews example_strptime raise_incomparable
       [flatten_review (example_review ''1'' ''not-a-date'')]
     = Inl ValueError"
  apply (rule conjI)
   apply (simp add: eval_defs fetch_loop.simps always_503_def archive_store_def)
  apply (simp add: sort_reviews_def sort_key_of_def parse_date_def example_strptime_def
      flatten_review_def fixed_fields_def flatten_criterias_def dict_update_def dict_of_def
      example_review_def)
  done

text \<open>Line 98 alone orders integer ids as numbers: 10 comes before 9.\<close>

lemma sort_reviews_integer_ids:
  "sort_reviews example_strptime raise_incomparable
     [int_review 9 ''2024-01-02'', int_review 10 ''2024-01-02'', int_review 2 ''2024-01-03'']
   = Inr [int_review 2 ''2024-01-03'', int_review 10 ''2024-01-02'', int_review 9 ''2024-01-02'']"
  by (simp add: sort_reviews_def sort_key_of_def parse_date_def example_strptime_def
      int_review_def comparable_keys_def comparable_def id_rank_def rank_key_def
      sorted_reverse_def less_eq_prod_def)

text \<open>
  C6: the code at an archive that is on disk in ascending order, with the service
  answering 503. Line 98 alone would put it in descending order of (date, id), but the
  run raises \<^verbatim>\<open>TypeError\<close> at line 96: the file is not rewritten and stays
  unsorted.
\<close>

theorem unsorted_archive_stays_unsorted:
  "save_app_reviews always_503 example_strptime example_set_iter raise_incomparable
     738890 ''com.example'' (archive_store unsorted_batch)
     = Some (Raised TypeError, archive_store unsorted_batch)
   \<and> sort_reviews example_strptime raise_incomparable unsorted_batch = Inr sorted_archive
   \<and> unsorted_batch \<noteq> sorted_archive"
proof (intro conjI)
  show "save_app_reviews always_503 example_strptime example_set_iter raise_incomparable
     738890 ''com.example'' (archive_store unsorted_batch)
     = Some (Raised TypeError, archive_store unsorted_batch)"
    by (simp add: eval_defs fetch_loop.simps always_503_def archive_store_def unsorted_batch_def)
  have k: "sort_keys example_strptime unsorted_batch
           = Inr [(738887, JStr ''10''), (738887, JStr ''9''), (738888, JStr ''2'')]"
    by (simp add: unsorted_batch_def flat_example sort_key_of_def parse_date_def
        example_strptime_def)
  have c: "comparable_keys [(738887, JStr ''10''), (738887, JStr ''9''), (738888, JStr ''2'')]"
    by (simp add: comparable_keys_def comparable_def id_rank_def)
  show "sort_reviews example_strptime raise_incomparable unsorted_batch = Inr sorted_archive"
    unfolding sort_reviews_def k
    using c
    by (simp add: unsorted_batch_def sorted_archive_def sorted_reverse_def rank_key_def
        id_rank_def less_eq_prod_def less_eq_char_def less_char_def)
  show "unsorted_batch \<noteq> sorted_archive"
    by (simp add: unsorted_batch_def sorted_archive_def flat_example)
qed

subsection \<open>The cutoff filter and the pagination loop\<close>

lemma after_cutoff_Inr:
  "after_cutoff strptime upto_date reviews = Inr kept \<Longrightarrow>
   kept = filter (dated_after strptime upto_date) reviews"
  by (induction reviews arbitrary: kept)
     (auto simp add: dated_after_def split: sum.splits if_splits)

lemma after_cutoff_total:
  "\<forall>r\<in>set reviews. \<exists>d. parse_date strptime (review_date r) = Inr d \<Longrightarrow>
   after_cutoff strptime upto_date reviews = Inr (filter (dated_after strptime upto_date) reviews)"
  by (induction reviews) (auto simp add: dated_after_def split: sum.splits)

lemma fetch_loop_cutoff_step:
  assumes "get_reviews requests_get app_id tok = Inr (Some (Results reviews next))"
    and "after_cutoff strptime d reviews = Inr kept"
  shows "fetch_loop requests_get strptime app_id (Some d) tok acc =
     (if kept = [] then Some (Inr acc)
      else if \<not> truthy next then Some (Inr (acc @ kept))
      else fetch_loop requests_get strptime app_id (Some d) next (acc @ kept))"
  using assms by (subst fetch_loop.simps) simp

lemma fetch_loop_full_step:
  assumes "get_reviews requests_get app_id tok = Inr (Some (Results reviews next))"
  shows "fetch_loop requests_get strptime app_id None tok acc =
     (if \<not> truthy next then Some (Inr (acc @ reviews))
      else fetch_loop requests_get strptime app_id None next (acc @ reviews))"
  using assms by (subst fetch_loop.simps) simp

lemma fetch_loop_no_data:
  assumes "get_reviews requests_get app_id tok = Inr None
           \<or> get_reviews requests_get app_id tok = Inr (Some Falsy)"
  shows "fetch_loop requests_get strptime app_id upto_date tok acc = Some (Inr acc)"
  using assms by (subst fetch_loop.simps) auto

lemma fetch_loop_page_sequence:
  "page_sequence requests_get app_id tok pages \<Longrightarrow>
   fetch_loop requests_get strptime app_id None tok acc = Some (Inr (acc @ concat (map fst pages)))"
proof (induction requests_get app_id tok pages arbitrary: acc rule: page_sequence.induct)
  case (1 requests_get app_id tok)
  then show ?case by simp
next
  case (2 requests_get app_id tok reviews "next")
  then show ?case by (simp add: fetch_loop_full_step)
next
  case (3 requests_get app_id tok reviews "next" p ps)
  then show ?case by (simp add: fetch_loop_full_step)
qed

lemma fetch_loop_cut_sequence:
  "cut_sequence requests_get strptime app_id d tok pages \<Longrightarrow>
   fetch_loop requests_get strptime app_id (Some d) tok acc
   = Some (Inr (acc @ concat (map (\<lambda>p. filter (dated_after strptime d) (fst p)) (butlast pages))))"
proof (induction requests_get strptime app_id d tok pages arbitrary: acc rule: cut_sequence.induct)
  case (1 requests_get strptime app_id upto_date tok)
  then show ?case by simp
next
  case (2 requests_get strptime app_id upto_date tok reviews "next")
  then show ?case by (simp add: fetch_loop_cutoff_step)
next
  case (3 requests_get strptime app_id upto_date tok reviews "next" p ps)
  from "3.prems" obtain kept
    where k: "after_cutoff strptime upto_date reviews = Inr kept" "kept \<noteq> []"
    by (auto split: sum.splits)
  have kf: "kept = filter (dated_after strptime upto_date) reviews"
    using k(1) by (rule after_cutoff_Inr)
  from "3.prems" have g: "get_reviews requests_get app_id tok = Inr (Some (Results reviews next))"
    and t: "truthy next"
    and c: "cut_sequence requests_get strptime app_id upto_date next (p # ps)"
    by simp_all
  show ?case
    using fetch_loop_cutoff_step [OF g k(1)] k(2) t "3.IH" [OF c] kf by simp
qed

text \<open>
  C4: with a cutoff date \<open>D\<close>, a page whose dates all parse is filtered to the reviews
  dated strictly after \<open>D\<close> (a review dated \<open>D\<close> or earlier is dropped, one dated later is
  kept), and this is the filter that the loop applies to each page it fetches.
\<close>

theorem cutoff_filter_strict:
  assumes "\<forall>r\<in>set reviews. \<exists>d. parse_date strptime (review_date r) = Inr d"
  shows "after_cutoff strptime D reviews = Inr (filter (dated_after strptime D) reviews)
    \<and> (\<forall>r\<in>set reviews. \<forall>d. parse_date strptime (review_date r) = Inr d \<longrightarrow>
          dated_after strptime D r = (D < d))
    \<and> (get_reviews requests_get app_id tok = Inr (Some (Results reviews next)) \<longrightarrow>
        fetch_loop requests_get strptime app_id (Some D) tok acc =
          (if filter (dated_after strptime D) reviews = [] then Some (Inr acc)
           else if \<not> truthy next
           then Some (Inr (acc @ filter (dated_after strptime D) reviews))
           else fetch_loop requests_get strptime app_id (Some D) next
                  (acc @ filter (dated_after strptime D) reviews)))"
proof (intro conjI ballI allI impI)
  show a: "after_cutoff strptime D reviews = Inr (filter (dated_after strptime D) reviews)"
    using assms by (rule after_cutoff_total)
  show "dated_after strptime D r = (D < d)"
    if "parse_date strptime (review_date r) = Inr d" for r d
    using that by (simp add: dated_after_def)
  show "fetch_loop requests_get strptime app_id (Some D) tok acc =
          (if filter (dated_after strptime D) reviews = [] then Some (Inr acc)
           else if \<not> truthy next
           then Some (Inr (acc @ filter (dated_after strptime D) reviews))
           else fetch_loop requests_get strptime app_id (Some D) next
                  (acc @ filter (dated_after strptime D) reviews))"
    if "get_reviews requests_get app_id tok = Inr (Some (Results reviews next))"
    using that a by (rule fetch_loop_cutoff_step)
qed

text \<open>
  The theorem at the cutoff 2024-01-03 and a page dated 2024-01-02, 2024-01-03 and
  2024-01-04: only the last review survives.
\<close>

theorem cutoff_filter_strict_witness:
  "after_cutoff example_strptime 738888 boundary_page = Inr [example_review ''c'' ''2024-01-04'']"
proof -
  have h: "\<forall>r\<in>set boundary_page. \<exists>d. parse_date example_strptime (review_date r) = Inr d"
    by (simp add: boundary_page_def example_review_def parse_date_def example_strptime_def)
  have "filter (dated_after example_strptime 738888) boundary_page
        = [example_review ''c'' ''2024-01-04'']"
    by (simp add: boundary_page_def example_review_def dated_after_def parse_date_def
        example_strptime_def)
  with cutoff_filter_strict [OF h, of 738888] show ?thesis by simp
qed

lemma get_reviews_request:
  "get_reviews requests_get app_id tok = json_if_200 (reviews_request requests_get app_id tok)"
  by (simp add: get_reviews_def reviews_request_def Let_def)

lemma fetch_loop_raise:
  assumes "get_reviews requests_get app_id tok = Inl e"
  shows "fetch_loop requests_get strptime app_id upto_date tok acc = Some (Inl e)"
  using assms by (subst fetch_loop.simps) simp

text \<open>
  C5, as the code has it: without a cutoff the loop consumes a page sequence up to the
  page that carries no token and returns all its reviews; with a cutoff it stops at the
  first page that keeps no review, whatever token that page carries, and returns what the
  pages before it kept; when the response is not a 200, or is a 200 with an empty body,
  the loop ends and returns the reviews accumulated so far; and when the request raises
  (the transport fails) or the body of a 200 does not decode, the exception leaves the
  loop and the reviews accumulated so far are not returned.
\<close>

theorem pagination_termination:
  "(page_sequence requests_get app_id tok pages \<longrightarrow>
      fetch_loop requests_get strptime app_id None tok acc
      = Some (Inr (acc @ concat (map fst pages))))
   \<and> (cut_sequence requests_get strptime app_id D tok pages \<longrightarrow>
      fetch_loop requests_get strptime app_id (Some D) tok acc
      = Some (Inr (acc @ concat (map (\<lambda>p. filter (dated_after strptime D) (fst p))
                                  (butlast pages)))))
   \<and> (get_reviews requests_get app_id tok = Inr None
        \<or> get_reviews requests_get app_id tok = Inr (Some Falsy) \<longrightarrow>
      fetch_loop requests_get strptime app_id upto_date tok acc = Some (Inr acc))
   \<and> (reviews_request requests_get app_id tok = Inr r \<and> status_code r \<noteq> 200 \<longrightarrow>
      fetch_loop requests_get strptime app_id upto_date tok acc = Some (Inr acc))
   \<and> (reviews_request requests_get app_id tok = Inr r \<and> status_code r = 200
        \<and> json r = Inr Falsy \<longrightarrow>
      fetch_loop requests_get strptime app_id upto_date tok acc = Some (Inr acc))
   \<and> (reviews_request requests_get app_id tok = Inl e \<longrightarrow>
      fetch_loop requests_get strptime app_id upto_date tok acc = Some (Inl e))
   \<and> (reviews_request requests_get app_id tok = Inr r \<and> status_code r = 200
        \<and> json r = Inl e \<longrightarrow>
      fetch_loop requests_get strptime app_id upto_date tok acc = Some (Inl e))"
proof (intro conjI impI)
  show "fetch_loop requests_get strptime app_id None tok acc
      = Some (Inr (acc @ concat (map fst pages)))"
    if "page_sequence requests_get app_id tok pages"
    using that by (rule fetch_loop_page_sequence)
  show "fetch_loop requests_get strptime app_id (Some D) tok acc
      = Some (Inr (acc @ concat (map (\<lambda>p. filter (dated_after strptime D) (fst p))
                                  (butlast pages))))"
    if "cut_sequence requests_get strptime app_id D tok pages"
    using that by (rule fetch_loop_cut_sequence)
  show "fetch_loop requests_get strptime app_id upto_date tok acc = Some (Inr acc)"
    if "get_reviews requests_get app_id tok = Inr None
        \<or> get_reviews requests_get app_id tok = Inr (Some Falsy)"
    using that by (rule fetch_loop_no_data)
  show "fetch_loop requests_get strptime app_id upto_date tok acc = Some (Inr acc)"
    if "reviews_request requests_get app_id tok = Inr r \<and> status_code r \<noteq> 200"
  proof -
    have "get_reviews requests_get app_id tok = Inr None"
      using that by (simp add: get_reviews_request json_if_200_def)
    then show ?thesis by (simp add: fetch_loop_no_data)
  qed
  show "fetch_loop requests_get strptime app_id upto_date tok acc = Some (Inr acc)"
    if "reviews_request requests_get app_id tok = Inr r \<and> status_code r = 200
        \<and> json r = Inr Falsy"
  proof -
    have "get_reviews requests_get app_id tok = Inr (Some Falsy)"
      using that by (simp add: get_reviews_request json_if_200_def)
    then show ?thesis by (simp add: fetch_loop_no_data)
  qed
  show "fetch_loop requests_get strptime app_id upto_date tok acc = Some (Inl e)"
    if "reviews_request requests_get app_id tok = Inl e"
  proof -
    have "get_reviews requests_get app_id tok = Inl e"
      using that by (simp add: get_reviews_request json_if_200_def)
    then show ?thesis by (rule fetch_loop_raise)
  qed
  show "fetch_loop requests_get strptime app_id upto_date tok acc = Some (Inl e)"
    if "reviews_request requests_get app_id tok = Inr r \<and> status_code r = 200
        \<and> json r = Inl e"
  proof -
    have "get_reviews requests_get app_id tok = Inl e"
      using that by (simp add: get_reviews_request json_if_200_def)
    then show ?thesis by (rule fetch_loop_raise)
  qed
qed

text \<open>
  The theorem at the three pages \<^verbatim>\<open>[tokenA, tokenB, none]\<close>: all are consumed without
  a cutoff; with the cutoff 2024-01-03 the loop stops at the second page, which keeps
  nothing and carries \<^verbatim>\<open>tokenB\<close>; a 503 ends the loop with what it has; and a
  transport that is down, or a body that is not JSON, makes the loop raise.
\<close>

theorem pagination_termination_witness:
  "fetch_loop three_page_service example_strptime ''com.example'' None None []
     = Some (Inr (page_one @ page_two @ page_three))
   \<and> fetch_loop three_page_service example_strptime ''com.example'' (Some 738888) None []
     = Some (Inr page_one)
   \<and> fetch_loop always_503 example_strptime ''com.example'' (Some 738888) (Some ''tokenA'') page_one
     = Some (Inr page_one)
   \<and> fetch_loop transport_down example_strptime ''com.example'' (Some 738888) (Some ''tokenA'')
       page_one
     = Some (Inl RequestException)
   \<and> fetch_loop undecodable_200 example_strptime ''com.example'' (Some 738888) (Some ''tokenA'')
       page_one
     = Some (Inl JSONDecodeError)"
proof -
  have s: "page_sequence three_page_service ''com.example'' None
      [(page_one, Some ''tokenA''), (page_two, Some ''tokenB''), (page_three, None)]"
    by (simp add: get_reviews_def json_if_200_def truthy_def ok_200_def
        three_page_service_def)
  have c: "cut_sequence three_page_service example_strptime ''com.example'' 738888 None
      [(page_one, Some ''tokenA''), (page_two, Some ''tokenB'')]"
    by (simp add: get_reviews_def json_if_200_def truthy_def ok_200_def
        three_page_service_def page_one_def page_two_def example_review_def parse_date_def
        example_strptime_def)
  have k: "filter (dated_after example_strptime 738888) page_one = page_one"
    by (simp add: page_one_def example_review_def dated_after_def parse_date_def
        example_strptime_def)
  have n: "reviews_request always_503 ''com.example'' (Some ''tokenA'')
             = Inr \<lparr>status_code = 503, json = Inl JSONDecodeError\<rparr>
           \<and> status_code \<lparr>status_code = 503, json = (Inl JSONDecodeError :: error + reviews_json)\<rparr>
             \<noteq> 200"
    by (simp add: reviews_request_def always_503_def)
  have t: "reviews_request transport_down ''com.example'' (Some ''tokenA'') = Inl RequestException"
    by (simp add: reviews_request_def transport_down_def)
  have u: "reviews_request undecodable_200 ''com.example'' (Some ''tokenA'')
             = Inr \<lparr>status_code = 200, json = Inl JSONDecodeError\<rparr>
           \<and> status_code \<lparr>status_code = 200, json = (Inl JSONDecodeError :: error + reviews_json)\<rparr>
             = 200
           \<and> json \<lparr>status_code = 200, json = (Inl JSONDecodeError :: error + reviews_json)\<rparr>
             = Inl JSONDecodeError"
    by (simp add: reviews_request_def undecodable_200_def)
  have "fetch_loop three_page_service example_strptime ''com.example'' None None []
     = Some (Inr (page_one @ page_two @ page_three))"
    using pagination_termination [where requests_get = three_page_service
        and app_id = "''com.example''" and tok = None
        and pages = "[(page_one, Some ''tokenA''), (page_two, Some ''tokenB''), (page_three, None)]"
        and strptime = example_strptime and acc = "[]"] s
    by simp
  moreover have "fetch_loop three_page_service example_strptime ''com.example'' (Some 738888) None []
     = Some (Inr page_one)"
    using pagination_termination [where requests_get = three_page_service
        and app_id = "''com.example''" and tok = None
        and pages = "[(page_one, Some ''tokenA''), (page_two, Some ''tokenB'')]"
        and strptime = example_strptime and acc = "[]" and D = 738888] c k
    by simp
  moreover have "fetch_loop always_503 example_strptime ''com.example'' (Some 738888)
      (Some ''tokenA'') page_one = Some (Inr page_one)"
    using pagination_termination [where requests_get = always_503
        and app_id = "''com.example''" and tok = "Some ''tokenA''"
        and strptime = example_strptime and acc = page_one and upto_date = "Some 738888"
        and r = "\<lparr>status_code = 503, json = Inl JSONDecodeError\<rparr>"] n
    by blast
  moreover have "fetch_loop transport_down example_strptime ''com.example'' (Some 738888)
      (Some ''tokenA'') page_one = Some (Inl RequestException)"
    using pagination_termination [where requests_get = transport_down
        and app_id = "''com.example''" and tok = "Some ''tokenA''"
        and strptime = example_strptime and acc = page_one and upto_date = "Some 738888"
        and e = RequestException] t
    by blast
  moreover have "fetch_loop undecodable_200 example_strptime ''com.example'' (Some 738888)
      (Some ''tokenA'') page_one = Some (Inl JSONDecodeError)"
    using pagination_termination [where requests_get = undecodable_200
        and app_id = "''com.example''" and tok = "Some ''tokenA''"
        and strptime = example_strptime and acc = page_one and upto_date = "Some 738888"
        and r = "\<lparr>status_code = 200, json = Inl JSONDecodeError\<rparr>"
        and e = JSONDecodeError] u
    by blast
  ultimately show ?thesis by simp
qed

text \<open>
  C5 as stated fails: when the request for the second page raises, the loop raises too,
  and the reviews of the first page are not returned.
\<close>

theorem fetch_loop_transport_error_counterexample:
  "fetch_loop second_request_fails example_strptime ''com.example'' None None []
   = Some (Inl RequestException)"
proof -
  have 1: "get_reviews second_request_fails ''com.example'' None
           = Inr (Some (Results page_one (Some ''tokenA'')))"
    by (simp add: get_reviews_def json_if_200_def truthy_def ok_200_def second_request_fails_def)
  have 2: "get_reviews second_request_fails ''com.example'' (Some ''tokenA'')
           = Inl RequestException"
    by (simp add: get_reviews_def json_if_200_def truthy_def second_request_fails_def)
  show ?thesis
    by (simp add: fetch_loop_full_step [OF 1] truthy_def fetch_loop_raise [OF 2])
qed

subsection \<open>Dictionaries and flattening\<close>

lemma update_fresh: "k \<notin> fst ` set al \<Longrightarrow> AList.update k v al = al @ [(k, v)]"
  by (induction al) auto

lemma dict_update_fresh:
  "distinct (map fst items) \<Longrightarrow> fst ` set items \<inter> fst ` set d = {} \<Longrightarrow>
   dict_update d items = d @ items"
proof (induction items arbitrary: d)
  case Nil
  then show ?case by (simp add: dict_update_def)
next
  case (Cons x xs)
  obtain k v where x: "x = (k, v)" by (cases x)
  have fresh: "k \<notin> fst ` set d" using Cons.prems(2) x by auto
  have d: "distinct (map fst xs)" using Cons.prems(1) by simp
  have disj: "fst ` set xs \<inter> fst ` set (d @ [(k, v)]) = {}"
    using Cons.prems x by auto
  have "dict_update d (x # xs) = dict_update (AList.update k v d) xs"
    by (simp add: dict_update_def x)
  also have "\<dots> = dict_update (d @ [(k, v)]) xs" by (simp add: update_fresh [OF fresh])
  also have "\<dots> = (d @ [(k, v)]) @ xs" by (rule Cons.IH [OF d disj])
  finally show ?case by (simp add: x)
qed

lemma dict_of_distinct: "distinct (map fst d) \<Longrightarrow> dict_of d = d"
  by (simp add: dict_of_def dict_update_fresh)
















subsection \<open>Deduplication\<close>

lemma remove_duplicates_conv:
  assumes "set_iter_ok set_iter" and "\<forall>d\<in>set reviews. distinct (map fst d)"
  shows "remove_duplicates set_iter reviews = set_iter reviews"
proof -
  have s: "set (set_iter reviews) = set reviews"
    using assms(1) by (simp add: set_iter_ok_def)
  have "map dict_of (set_iter reviews) = map (\<lambda>d. d) (set_iter reviews)"
    by (rule map_cong) (use s assms(2) in \<open>auto simp add: dict_of_distinct\<close>)
  moreover have "map items_tuple reviews = reviews"
    by (induction reviews) (simp_all add: items_tuple_def)
  ultimately show ?thesis by (simp add: remove_duplicates_def)
qed

lemma remove_duplicates_distinct:
  assumes "set_iter_ok set_iter" and "\<forall>d\<in>set reviews. distinct (map fst d)"
  shows "distinct (remove_duplicates set_iter reviews)"
    and "set (remove_duplicates set_iter reviews) = set reviews"
    and "length (remove_duplicates set_iter reviews) = card (set reviews)"
proof -
  let ?out = "remove_duplicates set_iter reviews"
  have c: "?out = set_iter reviews" using assms by (rule remove_duplicates_conv)
  show d: "distinct ?out" using assms(1) by (simp add: c set_iter_ok_def)
  show s: "set ?out = set reviews" using assms(1) by (simp add: c set_iter_ok_def)
  show "length ?out = card (set reviews)" using distinct_card [OF d] s by simp
qed

lemma extract_all_reviews_conv:
  "extract_all_reviews requests_get strptime set_iter app_id upto_date =
     (case fetch_loop requests_get strptime app_id upto_date None [] of
        None \<Rightarrow> None
      | Some (Inl e) \<Rightarrow> Some (Inl e)
      | Some (Inr all_reviews) \<Rightarrow>
          Some (Inr (remove_duplicates set_iter (map flatten_review all_reviews))))"
  by (simp add: extract_all_reviews_def remove_duplicates_def Let_def
      split: option.splits sum.splits)

text \<open>
  C2, as the code has it: for dictionaries (no key twice), \<open>remove_duplicates\<close> and the
  identical last step of \<open>extract_all_reviews\<close> return exactly one representative of
  each distinct item sequence, that is of each record up to equal keys, equal values and
  equal key order, and the size of the output is the number of distinct item sequences.
\<close>

theorem remove_duplicates_item_sequences:
  assumes "set_iter_ok set_iter" and "\<forall>d\<in>set reviews. distinct (map fst d)"
  shows "distinct (remove_duplicates set_iter reviews)
    \<and> set (remove_duplicates set_iter reviews) = set reviews
    \<and> length (remove_duplicates set_iter reviews) = card (set reviews)
    \<and> extract_all_reviews requests_get strptime set_iter app_id upto_date =
        (case fetch_loop requests_get strptime app_id upto_date None [] of
           None \<Rightarrow> None
         | Some (Inl e) \<Rightarrow> Some (Inl e)
         | Some (Inr all_reviews) \<Rightarrow>
             Some (Inr (remove_duplicates set_iter (map flatten_review all_reviews))))"
  using remove_duplicates_distinct [OF assms] extract_all_reviews_conv by simp

text \<open>The theorem at a list that holds one record twice and another once.\<close>

theorem remove_duplicates_item_sequences_witness:
  "length (remove_duplicates example_set_iter [record_a, record_a, record_b]) = 2
   \<and> set (remove_duplicates example_set_iter [record_a, record_a, record_b]) = {record_a, record_b}"
proof -
  have ok: "set_iter_ok example_set_iter"
    by (simp add: set_iter_ok_def example_set_iter_def)
  have keys: "\<forall>d\<in>set [record_a, record_a, record_b]. distinct (map fst d)"
    by (simp add: record_a_def record_b_def)
  have ne: "record_a \<noteq> record_b"
    by (simp add: record_a_def record_b_def)
  from remove_duplicates_item_sequences [OF ok keys] ne show ?thesis by simp
qed

text \<open>
  C2 as stated fails: two records with the same keys and values in a different key order
  are both kept.
\<close>

theorem remove_duplicates_key_order_counterexample:
  "set record_a = set record_b
   \<and> remove_duplicates example_set_iter [record_a, record_b] = [record_a, record_b]"
  by (simp add: record_a_def record_b_def remove_duplicates_def example_set_iter_def items_tuple_def
      dict_of_def dict_update_def insert_commute)

subsection \<open>Criteria counts\<close>

lemma map_of_count_key:
  "map_of (count_key acc x) k =
     (if startswith x ''vaf'' \<and> x = k
      then Some ((case map_of acc k of None \<Rightarrow> 0 | Some n \<Rightarrow> n) + 1)
      else map_of acc k)"
  by (auto simp add: count_key_def update_conv')

lemma map_of_count_keys:
  "map_of (foldl count_key acc keys) k =
     (if startswith k ''vaf'' \<and> k \<in> set keys
      then Some ((case map_of acc k of None \<Rightarrow> 0 | Some n \<Rightarrow> n) + int (count_list keys k))
      else map_of acc k)"
proof (induction keys arbitrary: acc)
  case Nil
  then show ?case by simp
next
  case (Cons x xs)
  show ?case
    by (auto simp add: Cons.IH map_of_count_key)
qed

lemma distinct_count_keys:
  "distinct (map fst acc) \<Longrightarrow> distinct (map fst (foldl count_key acc keys))"
  by (induction keys arbitrary: acc) (simp_all add: count_key_def distinct_update)

lemma sum_count_absent:
  "\<forall>r\<in>set rs. k \<notin> fst ` set r \<Longrightarrow> (\<Sum>r\<leftarrow>rs. int (count_list (map fst r) k)) = 0"
  by (induction rs) (simp_all add: count_list_0_iff)

lemma map_of_count_reviews:
  "map_of (foldl (\<lambda>acc r. foldl count_key acc (map fst r)) acc rs) k =
     (if startswith k ''vaf'' \<and> (\<exists>r\<in>set rs. k \<in> fst ` set r)
      then Some ((case map_of acc k of None \<Rightarrow> 0 | Some n \<Rightarrow> n)
                 + (\<Sum>r\<leftarrow>rs. int (count_list (map fst r) k)))
      else map_of acc k)"
proof (induction rs arbitrary: acc)
  case Nil
  then show ?case by simp
next
  case (Cons r rs)
  show ?case
    by (auto simp add: Cons.IH map_of_count_keys count_list_0_iff sum_count_absent)
qed

lemma distinct_count_reviews:
  "distinct (map fst acc) \<Longrightarrow>
   distinct (map fst (foldl (\<lambda>acc r. foldl count_key acc (map fst r)) acc rs))"
  by (induction rs arbitrary: acc) (simp_all add: distinct_count_keys)

lemma count_list_distinct:
  "distinct xs \<Longrightarrow> count_list xs k = (if k \<in> set xs then 1 else 0)"
  by (induction xs) auto

lemma sum_containing:
  "\<forall>r\<in>set rs. distinct (map fst r) \<Longrightarrow>
   (\<Sum>r\<leftarrow>rs. int (count_list (map fst r) k)) = int (length (filter (\<lambda>r. k \<in> fst ` set r) rs))"
  by (induction rs) (simp_all add: count_list_distinct)

lemma map_of_count_criterias:
  assumes "\<forall>r\<in>set rs. distinct (map fst r)"
  shows "map_of (count_criterias rs) k =
     (if startswith k ''vaf'' \<and> (\<exists>r\<in>set rs. k \<in> fst ` set r)
      then Some (int (length (filter (\<lambda>r. k \<in> fst ` set r) rs)))
      else None)"
  by (simp add: count_criterias_def map_of_count_reviews sum_containing [OF assms])

lemma distinct_count_criterias: "distinct (map fst (count_criterias rs))"
  by (simp add: count_criterias_def distinct_count_reviews)

text \<open>
  C10: \<open>save_app_review_criterias\<close> writes, from the Reviews file as it is now (the empty
  archive when the file is missing, which gives the empty mapping), a mapping with no key
  twice that holds exactly the keys starting with \<^verbatim>\<open>vaf\<close> that occur in a persisted
  review, each with the number of persisted reviews that contain it; the Reviews file is
  left as it was. The reviews are dictionaries: no key twice in one review.
\<close>

theorem criterias_file_counts:
  assumes "\<forall>r\<in>set (load_reviews fs (reviews_path app_id)). distinct (map fst r)"
  shows "criterias_files (save_app_review_criterias app_id fs) (criterias_path app_id)
           = Some (count_criterias (load_reviews fs (reviews_path app_id)))
    \<and> reviews_files (save_app_review_criterias app_id fs) = reviews_files fs
    \<and> (reviews_files fs (reviews_path app_id) = None \<longrightarrow>
         count_criterias (load_reviews fs (reviews_path app_id)) = [])
    \<and> distinct (map fst (count_criterias (load_reviews fs (reviews_path app_id))))
    \<and> (\<forall>k. map_of (count_criterias (load_reviews fs (reviews_path app_id))) k =
         (if startswith k ''vaf''
             \<and> (\<exists>r\<in>set (load_reviews fs (reviews_path app_id)). k \<in> fst ` set r)
          then Some (int (length (filter (\<lambda>r. k \<in> fst ` set r)
                                    (load_reviews fs (reviews_path app_id)))))
          else None))"
proof (intro conjI allI impI)
  show "criterias_files (save_app_review_criterias app_id fs) (criterias_path app_id)
           = Some (count_criterias (load_reviews fs (reviews_path app_id)))"
    by (simp add: save_app_review_criterias_def Let_def)
  show "reviews_files (save_app_review_criterias app_id fs) = reviews_files fs"
    by (simp add: save_app_review_criterias_def Let_def)
  show "count_criterias (load_reviews fs (reviews_path app_id)) = []"
    if "reviews_files fs (reviews_path app_id) = None"
    using that by (simp add: load_reviews_def count_criterias_def)
  show "distinct (map fst (count_criterias (load_reviews fs (reviews_path app_id))))"
    by (rule distinct_count_criterias)
  show "map_of (count_criterias (load_reviews fs (reviews_path app_id))) k =
         (if startswith k ''vaf''
             \<and> (\<exists>r\<in>set (load_reviews fs (reviews_path app_id)). k \<in> fst ` set r)
          then Some (int (length (filter (\<lambda>r. k \<in> fst ` set r)
                                    (load_reviews fs (reviews_path app_id)))))
          else None)" for k
    using assms by (rule map_of_count_criterias)
qed

text \<open>
  The theorem at the archive of three records: the counts are 2 for
  \<^verbatim>\<open>vaf_clarity\<close> and 1 for \<^verbatim>\<open>vaf_speed\<close>.
\<close>

theorem criterias_file_counts_witness:
  "criterias_files (save_app_review_criterias ''com.example'' (archive_store criteria_archive))
     (criterias_path ''com.example'')
     = Some [(''vaf_clarity'', 2), (''vaf_speed'', 1)]"
proof -
  have l: "load_reviews (archive_store criteria_archive) (reviews_path ''com.example'')
           = criteria_archive"
    by (simp add: load_reviews_def archive_store_def)
  have h: "\<forall>r\<in>set (load_reviews (archive_store criteria_archive) (reviews_path ''com.example'')).
             distinct (map fst r)"
    unfolding l by (simp add: criteria_archive_def)
  have c: "count_criterias criteria_archive = [(''vaf_clarity'', 2), (''vaf_speed'', 1)]"
    by (simp add: count_criterias_def criteria_archive_def count_key_def startswith_def)
  from criterias_file_counts [OF h] show ?thesis by (simp add: l c)
qed

end
